theory Spec2Isabelle
  imports Main "HOL-Library.Sublist"
begin

section \<open>The capture API of app.go\<close>

text \<open>
  The development embeds the two bound methods \<open>CapturePage\<close> and \<open>GetCaptureProgress\<close>
  of \<open>App\<close> (app.go). Go strings are byte sequences, so a string is a \<open>char list\<close> of
  bytes and the Chinese literals of the source are written as their UTF-8 bytes. Go's
  \<open>int\<close> is modelled by \<open>int\<close>: the code only compares and assigns constants, it never
  computes with these values. Output to the log is not modelled.

  Every return statement of the two methods is \<open>json.Marshal(response)\<close> converted to a
  string; the model returns the \<open>ApiResponse\<close> value that is serialised, together with
  the state of the capture service after the call.
\<close>

subsection \<open>Structures\<close>

text \<open>
  \<open>CaptureOptions\<close>, \<open>CaptureResult\<close> and \<open>ProgressInfo\<close> are declared in package
  \<open>services\<close>; the records have the fields that app.go reads and writes.
\<close>

record CaptureOptions =
  IncludeImages :: bool
  IncludeStyles :: bool
  IncludeScripts :: bool
  FollowRedirects :: bool
  Timeout :: int
  CreateZip :: bool
  MaxFiles :: int

record CaptureResult =
  StatusCode :: int
  ContentLength :: int
  Duration :: int
  Content :: string

record FileInfo =
  Status :: string

record ProgressInfo =
  Phase :: string
  CompletedFiles :: int
  TotalFiles :: int
  CurrentFile :: string
  FileList :: "FileInfo list"

text \<open>
  \<open>ApiResponse.Data\<close> is an \<open>interface{}\<close> with \<open>omitempty\<close>: absent, a capture
  result, or a progress snapshot.
\<close>

datatype api_data = NoData | ResultData CaptureResult | ProgressData ProgressInfo

record ApiResponse =
  Code :: int
  Msg :: string
  Data :: api_data

subsection \<open>What app.go calls but does not define\<close>

text \<open>
  The progress callback that \<open>CapturePage\<close> registers emits the Wails event
  \<open>capture_progress\<close> with the progress as payload (the rest of the closure only logs).
\<close>

type_synonym callback = "ProgressInfo \<Rightarrow> string \<times> ProgressInfo"

definition progress_callback :: callback where
  "progress_callback progress = (''capture_progress'', progress)"

text \<open>
  The methods of \<open>services.PageCaptureService\<close> that the two operations call are parameters:
  each takes the state of the service and returns the new one. \<open>ServiceCapturePage\<close>
  returns the pair \<open>(result, err)\<close> of the Go method, a nil pointer being \<open>None\<close> and an
  error being the text of \<open>err.Error()\<close>, the only thing app.go reads of it.
\<close>

record 's PageCaptureService =
  SetProgressCallback :: "callback \<Rightarrow> 's \<Rightarrow> 's"
  ServiceCapturePage ::
    "string \<Rightarrow> CaptureOptions \<Rightarrow> 's \<Rightarrow> (CaptureResult option \<times> string option) \<times> 's"
  GetCurrentProgress :: "'s \<Rightarrow> ProgressInfo \<times> 's"

text \<open>
  \<open>json.Unmarshal\<close> into a struct either fails or assigns the fields whose keys are
  present in the JSON object and leaves every other field as it was. It is a parameter
  of type \<open>string \<Rightarrow> decoded_fields option\<close>: \<open>None\<close> is an error, \<open>Some fs\<close> gives for
  each field the value assigned, if any.
\<close>

record decoded_fields =
  includeImages :: "bool option"
  includeStyles :: "bool option"
  includeScripts :: "bool option"
  followRedirects :: "bool option"
  timeout :: "int option"
  createZip :: "bool option"
  maxFiles :: "int option"

definition assign_fields :: "decoded_fields \<Rightarrow> CaptureOptions \<Rightarrow> CaptureOptions" where
  "assign_fields fs options =
     \<lparr>IncludeImages = (case includeImages fs of None \<Rightarrow> IncludeImages options | Some b \<Rightarrow> b),
      IncludeStyles = (case includeStyles fs of None \<Rightarrow> IncludeStyles options | Some b \<Rightarrow> b),
      IncludeScripts = (case includeScripts fs of None \<Rightarrow> IncludeScripts options | Some b \<Rightarrow> b),
      FollowRedirects = (case followRedirects fs of None \<Rightarrow> FollowRedirects options | Some b \<Rightarrow> b),
      Timeout = (case timeout fs of None \<Rightarrow> Timeout options | Some n \<Rightarrow> n),
      CreateZip = (case createZip fs of None \<Rightarrow> CreateZip options | Some b \<Rightarrow> b),
      MaxFiles = (case maxFiles fs of None \<Rightarrow> MaxFiles options | Some n \<Rightarrow> n)\<rparr>"

subsection \<open>strings.TrimSpace and strings.Contains\<close>

text \<open>
  The UTF-8 encodings of the runes for which \<open>unicode.IsSpace\<close> holds: tab, line feed,
  vertical tab, form feed, carriage return, space, U+0085, U+00A0, U+1680, U+2000 to
  U+200A, U+2028, U+2029, U+202F, U+205F and U+3000.
\<close>

definition space_encodings :: "string list" where
  "space_encodings =
    [[CHR 0x09], [CHR 0x0A], [CHR 0x0B], [CHR 0x0C], [CHR 0x0D], [CHR 0x20],
     [CHR 0xC2, CHR 0x85], [CHR 0xC2, CHR 0xA0], [CHR 0xE1, CHR 0x9A, CHR 0x80],
     [CHR 0xE2, CHR 0x80, CHR 0x80], [CHR 0xE2, CHR 0x80, CHR 0x81],
     [CHR 0xE2, CHR 0x80, CHR 0x82], [CHR 0xE2, CHR 0x80, CHR 0x83],
     [CHR 0xE2, CHR 0x80, CHR 0x84], [CHR 0xE2, CHR 0x80, CHR 0x85],
     [CHR 0xE2, CHR 0x80, CHR 0x86], [CHR 0xE2, CHR 0x80, CHR 0x87],
     [CHR 0xE2, CHR 0x80, CHR 0x88], [CHR 0xE2, CHR 0x80, CHR 0x89],
     [CHR 0xE2, CHR 0x80, CHR 0x8A], [CHR 0xE2, CHR 0x80, CHR 0xA8],
     [CHR 0xE2, CHR 0x80, CHR 0xA9], [CHR 0xE2, CHR 0x80, CHR 0xAF],
     [CHR 0xE2, CHR 0x81, CHR 0x9F], [CHR 0xE3, CHR 0x80, CHR 0x80]]"

text \<open>The number of bytes of the first of the encodings \<open>ps\<close> that \<open>s\<close> starts with, else 0.\<close>

definition rune_width :: "string list \<Rightarrow> string \<Rightarrow> nat" where
  "rune_width ps s = (case find (\<lambda>p. prefix p s) ps of None \<Rightarrow> 0 | Some p \<Rightarrow> length p)"

function trim_runes :: "string list \<Rightarrow> string \<Rightarrow> string" where
  "trim_runes ps s =
     (if rune_width ps s = 0 then s else trim_runes ps (drop (rune_width ps s) s))"
  by pat_completeness auto
termination
proof (relation "measure (\<lambda>(ps, s). length s)")
  show "wf (measure (\<lambda>(ps, s). length s))"
    by simp
next
  fix ps :: "string list" and s :: string
  assume w: "rune_width ps s \<noteq> 0"
  then obtain p where p: "find (\<lambda>p. prefix p s) ps = Some p" and len: "length p \<noteq> 0"
    by (auto simp: rune_width_def split: option.splits)
  from p have "prefix p s"
    by (auto simp: find_Some_iff)
  with len have "s \<noteq> []"
    by auto
  with w show "((ps, drop (rune_width ps s) s), (ps, s)) \<in> measure (\<lambda>(ps, s). length s)"
    by simp
qed

declare trim_runes.simps [simp del]

text \<open>
  \<open>strings.TrimSpace\<close>: the white space runes are cut off at the front, reading forwards,
  then at the back, reading backwards.
\<close>

definition TrimSpace :: "string \<Rightarrow> string" where
  "TrimSpace s =
     rev (trim_runes (map rev space_encodings) (rev (trim_runes space_encodings s)))"

text \<open>\<open>strings.Contains s substr\<close>: \<open>substr\<close> occurs in \<open>s\<close> as a run of consecutive bytes.\<close>

fun Contains :: "string \<Rightarrow> string \<Rightarrow> bool" where
  "Contains [] substr = (substr = [])"
| "Contains (c # cs) substr = (prefix substr (c # cs) \<or> Contains cs substr)"

subsection \<open>The string literals of CapturePage\<close>

definition msg_url_empty :: string where
  "msg_url_empty = ''URL'' @ [CHR 0xE4, CHR 0xB8, CHR 0x8D, CHR 0xE8, CHR 0x83, CHR 0xBD,
     CHR 0xE4, CHR 0xB8, CHR 0xBA, CHR 0xE7, CHR 0xA9, CHR 0xBA]"

definition text_http_error :: string where
  "text_http_error = ''HTTP'' @ [CHR 0xE9, CHR 0x94, CHR 0x99, CHR 0xE8, CHR 0xAF, CHR 0xAF]"

definition text_unsupported_type :: string where
  "text_unsupported_type = [CHR 0xE4, CHR 0xB8, CHR 0x8D, CHR 0xE6, CHR 0x94, CHR 0xAF,
     CHR 0xE6, CHR 0x8C, CHR 0x81, CHR 0xE7, CHR 0x9A, CHR 0x84, CHR 0xE5, CHR 0x86, CHR 0x85,
     CHR 0xE5, CHR 0xAE, CHR 0xB9, CHR 0xE7, CHR 0xB1, CHR 0xBB, CHR 0xE5, CHR 0x9E, CHR 0x8B]"

definition text_request_failed :: string where
  "text_request_failed = [CHR 0xE8, CHR 0xAF, CHR 0xB7, CHR 0xE6, CHR 0xB1, CHR 0x82,
     CHR 0xE5, CHR 0xA4, CHR 0xB1, CHR 0xE8, CHR 0xB4, CHR 0xA5]"

definition msg_cannot_access :: string where
  "msg_cannot_access = [CHR 0xE6, CHR 0x97, CHR 0xA0, CHR 0xE6, CHR 0xB3, CHR 0x95,
     CHR 0xE8, CHR 0xAE, CHR 0xBF, CHR 0xE9, CHR 0x97, CHR 0xAE, CHR 0xE9, CHR 0xA1, CHR 0xB5,
     CHR 0xE9, CHR 0x9D, CHR 0xA2] @ '': ''"

definition msg_type_unsupported :: string where
  "msg_type_unsupported = [CHR 0xE9, CHR 0xA1, CHR 0xB5, CHR 0xE9, CHR 0x9D, CHR 0xA2,
     CHR 0xE7, CHR 0xB1, CHR 0xBB, CHR 0xE5, CHR 0x9E, CHR 0x8B, CHR 0xE4, CHR 0xB8, CHR 0x8D,
     CHR 0xE6, CHR 0x94, CHR 0xAF, CHR 0xE6, CHR 0x8C, CHR 0x81] @ '': ''"

definition msg_network_failed :: string where
  "msg_network_failed = [CHR 0xE7, CHR 0xBD, CHR 0x91, CHR 0xE7, CHR 0xBB, CHR 0x9C,
     CHR 0xE8, CHR 0xAF, CHR 0xB7, CHR 0xE6, CHR 0xB1, CHR 0x82, CHR 0xE5, CHR 0xA4, CHR 0xB1,
     CHR 0xE8, CHR 0xB4, CHR 0xA5] @ '': ''"

definition msg_capture_failed :: string where
  "msg_capture_failed = [CHR 0xE9, CHR 0xA1, CHR 0xB5, CHR 0xE9, CHR 0x9D, CHR 0xA2,
     CHR 0xE6, CHR 0x8A, CHR 0x93, CHR 0xE5, CHR 0x8F, CHR 0x96, CHR 0xE5, CHR 0xA4, CHR 0xB1,
     CHR 0xE8, CHR 0xB4, CHR 0xA5] @ '': ''"

definition msg_empty_result :: string where
  "msg_empty_result = [CHR 0xE9, CHR 0xA1, CHR 0xB5, CHR 0xE9, CHR 0x9D, CHR 0xA2,
     CHR 0xE6, CHR 0x8A, CHR 0x93, CHR 0xE5, CHR 0x8F, CHR 0x96, CHR 0xE8, CHR 0xBF, CHR 0x94,
     CHR 0xE5, CHR 0x9B, CHR 0x9E, CHR 0xE7, CHR 0xA9, CHR 0xBA, CHR 0xE7, CHR 0xBB, CHR 0x93,
     CHR 0xE6, CHR 0x9E, CHR 0x9C]"

definition msg_capture_ok :: string where
  "msg_capture_ok = [CHR 0xE9, CHR 0xA1, CHR 0xB5, CHR 0xE9, CHR 0x9D, CHR 0xA2,
     CHR 0xE6, CHR 0x8A, CHR 0x93, CHR 0xE5, CHR 0x8F, CHR 0x96, CHR 0xE6, CHR 0x88, CHR 0x90,
     CHR 0xE5, CHR 0x8A, CHR 0x9F]"

subsection \<open>CapturePage\<close>

text \<open>The value of \<open>var options services.CaptureOptions\<close>: every field zero.\<close>

definition zero_options :: CaptureOptions where
  "zero_options =
     \<lparr>IncludeImages = False, IncludeStyles = False, IncludeScripts = False,
      FollowRedirects = False, Timeout = 0, CreateZip = False, MaxFiles = 0\<rparr>"

text \<open>The struct literal that the source writes in both default branches.\<close>

definition default_options :: CaptureOptions where
  "default_options =
     \<lparr>IncludeImages = True, IncludeStyles = True, IncludeScripts = True,
      FollowRedirects = True, Timeout = 60, CreateZip = True, MaxFiles = 200\<rparr>"

text \<open>Lines 97 to 124: the options after parsing.\<close>

definition parse_options :: "(string \<Rightarrow> decoded_fields option) \<Rightarrow> string \<Rightarrow> CaptureOptions" where
  "parse_options unmarshal optionsJson =
     (if optionsJson \<noteq> [] then
        (case unmarshal optionsJson of
           None \<Rightarrow> default_options
         | Some fs \<Rightarrow> assign_fields fs zero_options)
      else default_options)"

text \<open>Lines 126 to 143: the four range checks in the order of the source, then the forced zip.\<close>

definition clamp_options :: "CaptureOptions \<Rightarrow> CaptureOptions" where
  "clamp_options options =
     (let o1 = (if Timeout options < 60 then options\<lparr>Timeout := 60\<rparr> else options);
          o2 = (if Timeout o1 > 300 then o1\<lparr>Timeout := 300\<rparr> else o1);
          o3 = (if MaxFiles o2 < 200 then o2\<lparr>MaxFiles := 200\<rparr> else o2);
          o4 = (if MaxFiles o3 > 1000 then o3\<lparr>MaxFiles := 1000\<rparr> else o3)
      in o4\<lparr>CreateZip := True\<rparr>)"

text \<open>Lines 185 to 195: the message is chosen by the text of the error.\<close>

definition error_message :: "string \<Rightarrow> string" where
  "error_message err =
     (if Contains err text_http_error then msg_cannot_access @ err
      else if Contains err text_unsupported_type then msg_type_unsupported @ err
      else if Contains err text_request_failed then msg_network_failed @ err
      else msg_capture_failed @ err)"

text \<open>Lines 181 to 221: the response to what the capture service returned.\<close>

definition capture_response :: "CaptureResult option \<times> string option \<Rightarrow> ApiResponse" where
  "capture_response r =
     (case snd r of
        Some err \<Rightarrow> \<lparr>Code = 500, Msg = error_message err, Data = NoData\<rparr>
      | None \<Rightarrow>
         (case fst r of
            None \<Rightarrow> \<lparr>Code = 500, Msg = msg_empty_result, Data = NoData\<rparr>
          | Some result \<Rightarrow> \<lparr>Code = 200, Msg = msg_capture_ok, Data = ResultData result\<rparr>))"

definition CapturePage ::
  "(string \<Rightarrow> decoded_fields option) \<Rightarrow> 's PageCaptureService \<Rightarrow> string \<Rightarrow> string \<Rightarrow> 's
     \<Rightarrow> ApiResponse \<times> 's" where
  "CapturePage unmarshal service targetURL optionsJson s =
     (if targetURL = [] \<or> TrimSpace targetURL = [] then
        (\<lparr>Code = 400, Msg = msg_url_empty, Data = NoData\<rparr>, s)
      else
        let options = clamp_options (parse_options unmarshal optionsJson);
            s1 = SetProgressCallback service progress_callback s;
            (r, s2) = ServiceCapturePage service targetURL options s1
        in (capture_response r, s2))"

text \<open>What the capture service returns to \<open>CapturePage\<close> when the URL passes the check.\<close>

abbreviation service_call ::
  "(string \<Rightarrow> decoded_fields option) \<Rightarrow> 's PageCaptureService \<Rightarrow> string \<Rightarrow> string \<Rightarrow> 's
     \<Rightarrow> (CaptureResult option \<times> string option) \<times> 's" where
  "service_call unmarshal service targetURL optionsJson s \<equiv>
     ServiceCapturePage service targetURL (clamp_options (parse_options unmarshal optionsJson))
       (SetProgressCallback service progress_callback s)"

subsection \<open>GetCaptureProgress\<close>

definition GetCaptureProgress :: "'s PageCaptureService \<Rightarrow> 's \<Rightarrow> ApiResponse \<times> 's" where
  "GetCaptureProgress service s =
     (let (progress, s1) = GetCurrentProgress service s
      in (\<lparr>Code = 200, Msg = ''success'', Data = ProgressData progress\<rparr>, s1))"

text \<open>The phases in which \<open>beforeClose\<close> takes a capture to be in progress (line 48).\<close>

definition capture_in_progress :: "string \<Rightarrow> bool" where
  "capture_in_progress phase =
     (phase = ''analyzing'' \<or> phase = ''downloading'' \<or> phase = ''saving'')"

subsection \<open>The capture service of the specification\<close>

text \<open>
  Modelled from the spec: \<open>services.PageCaptureService\<close>, whose source is not part of
  app.go. The Progress Tracker holds the current \<open>ProgressInfo\<close> of the session and an
  optional observer; its snapshot is a read of that state (section 4.4). A new
  \<open>CapturePage\<close> call while a session is active is rejected with the busy error and
  does not alter the state of the active session (sections 4.6 and 8); active are the
  phases that are neither idle nor terminal. The capture pipeline that runs otherwise
  (\<open>run\<close>) and the text of the busy error (\<open>busy\<close>) are parameters.
\<close>

record session =
  progress :: ProgressInfo
  observer :: "callback option"

definition spec_service ::
  "(string \<Rightarrow> CaptureOptions \<Rightarrow> session \<Rightarrow> (CaptureResult option \<times> string option) \<times> session)
     \<Rightarrow> string \<Rightarrow> session PageCaptureService" where
  "spec_service run busy =
     \<lparr>SetProgressCallback = (\<lambda>cb s. s\<lparr>observer := Some cb\<rparr>),
      ServiceCapturePage = (\<lambda>url options s.
         if capture_in_progress (Phase (progress s)) then ((None, Some busy), s)
         else run url options s),
      GetCurrentProgress = (\<lambda>s. (progress s, s))\<rparr>"

subsection \<open>Concrete services and inputs\<close>

text \<open>
  Instances of the parameters at which the theorems below are evaluated: a result, a
  service that succeeds and records the URL and the options of every call, a service
  that fails with a given error, a pipeline for the service of the specification, one
  of its states, the text of a busy error, and \<open>json.Unmarshal\<close> on four payloads (the empty object, which assigns
  no field; an object with three keys; an object with all seven keys; and a truncated
  text, which is an error, as is every other text).
\<close>

definition example_result :: CaptureResult where
  "example_result = \<lparr>StatusCode = 200, ContentLength = 13, Duration = 5, Content = ''<html></html>''\<rparr>"

definition idle_progress :: ProgressInfo where
  "idle_progress =
     \<lparr>Phase = ''idle'', CompletedFiles = 0, TotalFiles = 0, CurrentFile = [], FileList = []\<rparr>"

definition recording_service :: "(string \<times> CaptureOptions) list PageCaptureService" where
  "recording_service =
     \<lparr>SetProgressCallback = (\<lambda>cb calls. calls),
      ServiceCapturePage = (\<lambda>url options calls. ((Some example_result, None), calls @ [(url, options)])),
      GetCurrentProgress = (\<lambda>calls. (idle_progress, calls))\<rparr>"

definition failing_service :: "string \<Rightarrow> unit PageCaptureService" where
  "failing_service err =
     \<lparr>SetProgressCallback = (\<lambda>cb u. u),
      ServiceCapturePage = (\<lambda>url options u. ((None, Some err), u)),
      GetCurrentProgress = (\<lambda>u. (idle_progress, u))\<rparr>"

definition silent_service :: "unit PageCaptureService" where
  "silent_service =
     \<lparr>SetProgressCallback = (\<lambda>cb u. u),
      ServiceCapturePage = (\<lambda>url options u. ((None, None), u)),
      GetCurrentProgress = (\<lambda>u. (idle_progress, u))\<rparr>"

definition example_run ::
  "string \<Rightarrow> CaptureOptions \<Rightarrow> session \<Rightarrow> (CaptureResult option \<times> string option) \<times> session" where
  "example_run url options s =
     ((Some example_result, None),
      s\<lparr>progress := \<lparr>Phase = ''completed'', CompletedFiles = 0, TotalFiles = 0,
                      CurrentFile = [], FileList = []\<rparr>\<rparr>)"

definition downloading_session :: session where
  "downloading_session =
     \<lparr>progress = \<lparr>Phase = ''downloading'', CompletedFiles = 1, TotalFiles = 2,
                   CurrentFile = ''https://example.com/b.png'',
                   FileList = [\<lparr>Status = ''completed''\<rparr>, \<lparr>Status = ''downloading''\<rparr>]\<rparr>,
      observer = Some progress_callback\<rparr>"

definition no_fields :: decoded_fields where
  "no_fields =
     \<lparr>includeImages = None, includeStyles = None, includeScripts = None,
      followRedirects = None, timeout = None, createZip = None, maxFiles = None\<rparr>"

definition payload_three_keys :: string where
  \<open>payload_three_keys = ''{"timeout":5000,"createZip":false,"maxFiles":-3}''\<close>

definition payload_all_keys :: string where
  \<open>payload_all_keys = ''{"includeImages":true,"includeStyles":false,"includeScripts":true,"followRedirects":false,"timeout":120,"createZip":true,"maxFiles":500}''\<close>

definition example_unmarshal :: "string \<Rightarrow> decoded_fields option" where
  "example_unmarshal text =
     (if text = ''{}'' then Some no_fields
      else if text = payload_three_keys then
        Some (no_fields\<lparr>timeout := Some 5000, createZip := Some False, maxFiles := Some (- 3)\<rparr>)
      else if text = payload_all_keys then
        Some \<lparr>includeImages = Some True, includeStyles = Some False, includeScripts = Some True,
              followRedirects = Some False, timeout = Some 120, createZip = Some True,
              maxFiles = Some 500\<rparr>
      else None)"

definition busy_text :: string where
  "busy_text = ''capture already in progress''"

definition some_url :: string where
  "some_url = ''https://example.com''"

section \<open>Properties\<close>

subsection \<open>Auxiliary facts\<close>

lemma clamp_options_Timeout:
  "Timeout (clamp_options options) =
     (if Timeout options < 60 then 60 else if Timeout options > 300 then 300 else Timeout options)"
  by (simp add: clamp_options_def Let_def)

lemma clamp_options_MaxFiles:
  "MaxFiles (clamp_options options) =
     (if MaxFiles options < 200 then 200 else if MaxFiles options > 1000 then 1000
      else MaxFiles options)"
  by (simp add: clamp_options_def Let_def)

lemma clamp_options_CreateZip: "CreateZip (clamp_options options)"
  by (simp add: clamp_options_def Let_def)

lemma clamp_options_flags:
  "IncludeImages (clamp_options options) = IncludeImages options"
  "IncludeStyles (clamp_options options) = IncludeStyles options"
  "IncludeScripts (clamp_options options) = IncludeScripts options"
  "FollowRedirects (clamp_options options) = FollowRedirects options"
  by (simp_all add: clamp_options_def Let_def)

lemma clamp_default_options: "clamp_options default_options = default_options"
  by (simp add: clamp_options_def default_options_def Let_def)

lemma parse_options_empty: "parse_options unmarshal [] = default_options"
  by (simp add: parse_options_def)

lemma parse_options_error:
  "unmarshal optionsJson = None \<Longrightarrow> parse_options unmarshal optionsJson = default_options"
  by (simp add: parse_options_def)

lemma parse_options_decoded:
  "optionsJson \<noteq> [] \<Longrightarrow> unmarshal optionsJson = Some fs \<Longrightarrow>
     parse_options unmarshal optionsJson = assign_fields fs zero_options"
  by (simp add: parse_options_def)

lemma CapturePage_cases:
  "CapturePage unmarshal service targetURL optionsJson s =
     (if targetURL = [] \<or> TrimSpace targetURL = [] then
        (\<lparr>Code = 400, Msg = msg_url_empty, Data = NoData\<rparr>, s)
      else apfst capture_response (service_call unmarshal service targetURL optionsJson s))"
  by (simp add: CapturePage_def Let_def split_def apfst_def map_prod_def)

lemma capture_response_Code:
  "Code (capture_response r) = (if snd r = None \<and> fst r \<noteq> None then 200 else 500)"
  by (simp add: capture_response_def split: option.splits)

lemma capture_response_error:
  "snd r = Some err \<Longrightarrow>
     capture_response r = \<lparr>Code = 500, Msg = error_message err, Data = NoData\<rparr>"
  by (simp add: capture_response_def)

lemma capture_response_nil:
  "capture_response (None, None) = \<lparr>Code = 500, Msg = msg_empty_result, Data = NoData\<rparr>"
  by (simp add: capture_response_def)

lemma capture_response_result:
  "capture_response (Some result, None) =
     \<lparr>Code = 200, Msg = msg_capture_ok, Data = ResultData result\<rparr>"
  by (simp add: capture_response_def)

lemma error_message_cases:
  "error_message err \<in>
     {msg_cannot_access @ err, msg_type_unsupported @ err, msg_network_failed @ err,
      msg_capture_failed @ err}"
  by (simp add: error_message_def)

text \<open>White space: a text made of white space runes only is trimmed to the empty text.\<close>

lemma trim_runes_Nil: "trim_runes ps [] = []"
proof -
  have "rune_width ps [] = 0"
    by (auto simp: rune_width_def find_Some_iff split: option.splits)
  then show ?thesis by (subst trim_runes.simps) simp
qed

lemma space_encodings_checked:
  "list_all (\<lambda>p. p \<noteq> [] \<and> list_all (\<lambda>w. prefix p w \<longrightarrow> p = w) space_encodings) space_encodings"
  by code_simp

lemma space_encodings_prefix_free:
  "p \<in> set space_encodings \<Longrightarrow> w \<in> set space_encodings \<Longrightarrow> prefix p w \<Longrightarrow> p = w"
  using space_encodings_checked by (simp add: list_all_iff)

lemma space_encodings_nonempty: "p \<in> set space_encodings \<Longrightarrow> p \<noteq> []"
  using space_encodings_checked by (auto simp: list_all_iff)

lemma rune_width_space:
  assumes w: "w \<in> set space_encodings"
  shows "rune_width space_encodings (w @ r) = length w"
proof -
  have "prefix w (w @ r)"
    by simp
  with w have "\<exists>p \<in> set space_encodings. prefix p (w @ r)"
    by blast
  then obtain p where found: "find (\<lambda>p. prefix p (w @ r)) space_encodings = Some p"
    by (cases "find (\<lambda>p. prefix p (w @ r)) space_encodings") (auto simp: find_None_iff)
  then have p: "p \<in> set space_encodings" and pre: "prefix p (w @ r)"
    by (auto simp: find_Some_iff)
  from pre have "prefix p w \<or> prefix w p"
    by (meson prefix_append prefix_order.order_refl prefix_same_cases)
  with p w have "p = w"
    using space_encodings_prefix_free by blast
  with found show ?thesis
    by (simp add: rune_width_def)
qed

lemma trim_runes_spaces:
  "set ws \<subseteq> set space_encodings \<Longrightarrow> trim_runes space_encodings (concat ws) = []"
proof (induction ws)
  case Nil
  show ?case by (simp add: trim_runes_Nil)
next
  case (Cons w ws)
  then have w: "w \<in> set space_encodings" and ws: "set ws \<subseteq> set space_encodings"
    by auto
  have width: "rune_width space_encodings (w @ concat ws) = length w"
    by (rule rune_width_space [OF w])
  have "length w \<noteq> 0"
    using space_encodings_nonempty [OF w] by simp
  with width have "trim_runes space_encodings (w @ concat ws) =
      trim_runes space_encodings (concat ws)"
    by (subst trim_runes.simps) simp
  with Cons.IH [OF ws] show ?case by simp
qed

lemma TrimSpace_spaces: "set ws \<subseteq> set space_encodings \<Longrightarrow> TrimSpace (concat ws) = []"
  by (simp add: TrimSpace_def trim_runes_spaces trim_runes_Nil)

lemma trim_runes_stop: "rune_width ps s = 0 \<Longrightarrow> trim_runes ps s = s"
  by (subst trim_runes.simps) simp

lemma some_url_not_blank: "some_url \<noteq> [] \<and> TrimSpace some_url \<noteq> []"
proof -
  have front: "rune_width space_encodings some_url = 0"
    by (simp add: rune_width_def space_encodings_def some_url_def)
  have rear: "rune_width (map rev space_encodings) (rev some_url) = 0"
    by (simp add: rune_width_def space_encodings_def some_url_def)
  have "TrimSpace some_url = some_url"
    by (simp add: TrimSpace_def trim_runes_stop [OF front] trim_runes_stop [OF rear])
  then show ?thesis
    by (simp add: some_url_def)
qed

subsection \<open>Option bounds\<close>

text \<open>
  C1. Whatever the options text and whatever \<open>json.Unmarshal\<close> makes of it, a call of
  \<open>CapturePage\<close> either stops at the URL check without reaching the capture service, or
  hands the service options whose \<open>Timeout\<close> lies in [60, 300] and whose \<open>MaxFiles\<close>
  lies in [200, 1000].
\<close>

theorem options_within_bounds:
  "CapturePage unmarshal service targetURL optionsJson s =
     (if targetURL = [] \<or> TrimSpace targetURL = [] then
        (\<lparr>Code = 400, Msg = msg_url_empty, Data = NoData\<rparr>, s)
      else apfst capture_response
        (ServiceCapturePage service targetURL (clamp_options (parse_options unmarshal optionsJson))
           (SetProgressCallback service progress_callback s)))
   \<and> 60 \<le> Timeout (clamp_options (parse_options unmarshal optionsJson))
   \<and> Timeout (clamp_options (parse_options unmarshal optionsJson)) \<le> 300
   \<and> 200 \<le> MaxFiles (clamp_options (parse_options unmarshal optionsJson))
   \<and> MaxFiles (clamp_options (parse_options unmarshal optionsJson)) \<le> 1000"
  by (simp add: CapturePage_cases clamp_options_Timeout clamp_options_MaxFiles)

theorem options_within_bounds_witness:
  "CapturePage example_unmarshal recording_service some_url payload_three_keys [] =
     (\<lparr>Code = 200, Msg = msg_capture_ok, Data = ResultData example_result\<rparr>,
      [(some_url, clamp_options (parse_options example_unmarshal payload_three_keys))])
   \<and> Timeout (clamp_options (parse_options example_unmarshal payload_three_keys)) = 300
   \<and> MaxFiles (clamp_options (parse_options example_unmarshal payload_three_keys)) = 200"
proof -
  have parsed: "parse_options example_unmarshal payload_three_keys =
      \<lparr>IncludeImages = False, IncludeStyles = False, IncludeScripts = False,
       FollowRedirects = False, Timeout = 5000, CreateZip = False, MaxFiles = - 3\<rparr>"
    by (simp add: parse_options_def example_unmarshal_def payload_three_keys_def
        assign_fields_def zero_options_def no_fields_def)
  show ?thesis
    using options_within_bounds
      [of example_unmarshal recording_service some_url payload_three_keys "[]"]
      some_url_not_blank
    by (simp add: parsed recording_service_def capture_response_result
        clamp_options_Timeout clamp_options_MaxFiles)
qed

subsection \<open>Forced archiving\<close>

text \<open>
  C2. Whatever the options text says about \<open>createZip\<close> (true, false or nothing), the
  options that \<open>CapturePage\<close> hands to the capture service have \<open>CreateZip\<close> true.
\<close>

theorem create_zip_forced:
  "CreateZip (clamp_options (parse_options unmarshal optionsJson))
   \<and> (targetURL \<noteq> [] \<and> TrimSpace targetURL \<noteq> [] \<longrightarrow>
        CapturePage unmarshal service targetURL optionsJson s =
          apfst capture_response
            (ServiceCapturePage service targetURL
               (clamp_options (parse_options unmarshal optionsJson))
               (SetProgressCallback service progress_callback s)))"
  by (simp add: CapturePage_cases clamp_options_CreateZip)

theorem create_zip_forced_witness:
  "createZip (the (example_unmarshal payload_three_keys)) = Some False
   \<and> map (\<lambda>call. CreateZip (snd call))
        (snd (CapturePage example_unmarshal recording_service some_url payload_three_keys []))
      = [True]"
proof -
  have decoded: "createZip (the (example_unmarshal payload_three_keys)) = Some False"
    by (simp add: example_unmarshal_def payload_three_keys_def no_fields_def)
  show ?thesis
    using create_zip_forced
      [of example_unmarshal payload_three_keys some_url recording_service "[]"]
      some_url_not_blank decoded
    by (simp add: recording_service_def)
qed

subsection \<open>Malformed options\<close>

text \<open>
  C3, as the code has it. A non-empty options text that \<open>json.Unmarshal\<close> rejects is not
  a reason to reject the call: the options become the defaults and the call goes on as
  it does for an empty options text, so that with a URL that passes the check the
  capture service is called with the default options.
\<close>

theorem malformed_options_use_defaults:
  "optionsJson \<noteq> [] \<Longrightarrow> unmarshal optionsJson = None \<Longrightarrow>
     CapturePage unmarshal service targetURL optionsJson s =
       CapturePage unmarshal service targetURL [] s
     \<and> (targetURL \<noteq> [] \<and> TrimSpace targetURL \<noteq> [] \<longrightarrow>
          CapturePage unmarshal service targetURL optionsJson s =
            apfst capture_response
              (ServiceCapturePage service targetURL default_options
                 (SetProgressCallback service progress_callback s)))"
  by (simp add: CapturePage_cases parse_options_error parse_options_empty clamp_default_options)

theorem malformed_options_use_defaults_witness:
  "''{'' \<noteq> [] \<and> example_unmarshal ''{'' = None
   \<and> CapturePage example_unmarshal (failing_service text_request_failed) some_url ''{'' () =
       CapturePage example_unmarshal (failing_service text_request_failed) some_url [] ()"
proof -
  have nonempty: "''{'' \<noteq> []"
    by simp
  have rejected: "example_unmarshal ''{'' = None"
    by (simp add: example_unmarshal_def payload_three_keys_def payload_all_keys_def)
  show ?thesis
    using malformed_options_use_defaults
      [of "''{''" example_unmarshal "failing_service text_request_failed" some_url "()"]
      nonempty rejected
    by simp
qed

text \<open>
  C3 as stated fails: the truncated text \<open>{\<close> is rejected by the parser, and the
  call is answered with code 200 after the service has run with the default options.
\<close>

theorem malformed_options_counterexample:
  "example_unmarshal ''{'' = None
   \<and> CapturePage example_unmarshal recording_service some_url ''{'' [] =
       (\<lparr>Code = 200, Msg = msg_capture_ok, Data = ResultData example_result\<rparr>,
        [(some_url, default_options)])"
proof -
  have rejected: "example_unmarshal ''{'' = None"
    by (simp add: example_unmarshal_def payload_three_keys_def payload_all_keys_def)
  have "parse_options example_unmarshal ''{'' = default_options"
    by (simp add: parse_options_error rejected)
  then show ?thesis
    using some_url_not_blank rejected
    by (simp add: CapturePage_cases clamp_default_options recording_service_def
        capture_response_result)
qed

subsection \<open>Omitted flags\<close>

lemma omitted_flags_are_false:
  assumes "optionsJson \<noteq> []" and "unmarshal optionsJson = Some fs"
  shows "includeImages fs = None \<Longrightarrow>
           \<not> IncludeImages (clamp_options (parse_options unmarshal optionsJson))"
    and "includeStyles fs = None \<Longrightarrow>
           \<not> IncludeStyles (clamp_options (parse_options unmarshal optionsJson))"
    and "includeScripts fs = None \<Longrightarrow>
           \<not> IncludeScripts (clamp_options (parse_options unmarshal optionsJson))"
    and "followRedirects fs = None \<Longrightarrow>
           \<not> FollowRedirects (clamp_options (parse_options unmarshal optionsJson))"
  using assms
  by (simp_all add: clamp_options_flags parse_options_decoded assign_fields_def zero_options_def)

text \<open>
  C4, evaluated on the code. For the options text \<open>{}\<close>, a JSON object without any key,
  the capture service is called with the four flags false; only the empty text and a
  text that does not parse give the defaults.
\<close>

theorem empty_object_flags:
  "example_unmarshal ''{}'' = Some no_fields
   \<and> snd (CapturePage example_unmarshal recording_service some_url ''{}'' []) =
       [(some_url,
         \<lparr>IncludeImages = False, IncludeStyles = False, IncludeScripts = False,
          FollowRedirects = False, Timeout = 60, CreateZip = True, MaxFiles = 200\<rparr>)]
   \<and> snd (CapturePage example_unmarshal recording_service some_url [] []) =
       [(some_url, default_options)]"
proof -
  have decoded: "example_unmarshal ''{}'' = Some no_fields"
    by (simp add: example_unmarshal_def)
  have "parse_options example_unmarshal ''{}'' = zero_options"
    by (simp add: parse_options_def decoded assign_fields_def no_fields_def zero_options_def)
  then have object: "clamp_options (parse_options example_unmarshal ''{}'') =
      \<lparr>IncludeImages = False, IncludeStyles = False, IncludeScripts = False,
       FollowRedirects = False, Timeout = 60, CreateZip = True, MaxFiles = 200\<rparr>"
    by (simp add: clamp_options_def zero_options_def Let_def)
  have absent: "clamp_options (parse_options example_unmarshal []) = default_options"
    by (simp add: parse_options_empty clamp_default_options)
  show ?thesis
    using some_url_not_blank decoded
    by (simp add: CapturePage_cases recording_service_def object absent)
qed

subsection \<open>Blank URL\<close>

text \<open>
  C5. When the URL is empty or consists of white space only (its \<open>TrimSpace\<close> is empty,
  as it is for every sequence of white space runes), \<open>CapturePage\<close> answers with code 400
  and leaves the state of the capture service as it was; no method of the service
  takes part in the answer.
\<close>

theorem blank_url_rejected:
  "targetURL = [] \<or> TrimSpace targetURL = []
     \<or> (\<exists>ws. set ws \<subseteq> set space_encodings \<and> targetURL = concat ws) \<Longrightarrow>
   CapturePage unmarshal service targetURL optionsJson s =
     (\<lparr>Code = 400, Msg = msg_url_empty, Data = NoData\<rparr>, s)"
  by (auto simp: CapturePage_cases TrimSpace_spaces)

theorem blank_url_rejected_witness:
  "CapturePage example_unmarshal recording_service [CHR 0x20, CHR 0xE3, CHR 0x80, CHR 0x80, CHR 0x09]
     payload_all_keys [] =
     (\<lparr>Code = 400, Msg = msg_url_empty, Data = NoData\<rparr>, [])"
proof -
  have "set [[CHR 0x20], [CHR 0xE3, CHR 0x80, CHR 0x80], [CHR 0x09]] \<subseteq> set space_encodings
      \<and> [CHR 0x20, CHR 0xE3, CHR 0x80, CHR 0x80, CHR 0x09] =
          concat [[CHR 0x20], [CHR 0xE3, CHR 0x80, CHR 0x80], [CHR 0x09]]"
    by (simp add: space_encodings_def)
  then have "\<exists>ws. set ws \<subseteq> set space_encodings
      \<and> [CHR 0x20, CHR 0xE3, CHR 0x80, CHR 0x80, CHR 0x09] = concat ws"
    by blast
  then show ?thesis
    using blank_url_rejected [of "[CHR 0x20, CHR 0xE3, CHR 0x80, CHR 0x80, CHR 0x09]"
        example_unmarshal recording_service payload_all_keys "[]"]
    by blast
qed

subsection \<open>A call while a capture is in progress\<close>

text \<open>
  C6, as the code has it, on the capture service of the specification. The URL check
  comes first, so the busy error is the answer only for a URL that passes it: then
  \<open>CapturePage\<close> answers with code 500 and the message made from the busy error, the
  pipeline does not run, and the progress of the active session (phase, file list,
  counters) is what it was; the only write is the registration of the progress
  callback.
\<close>

theorem busy_session_rejected:
  "capture_in_progress (Phase (progress s)) \<Longrightarrow> targetURL \<noteq> [] \<Longrightarrow> TrimSpace targetURL \<noteq> [] \<Longrightarrow>
     CapturePage unmarshal (spec_service run busy) targetURL optionsJson s =
       (\<lparr>Code = 500, Msg = error_message busy, Data = NoData\<rparr>,
        s\<lparr>observer := Some progress_callback\<rparr>)
     \<and> progress (snd (CapturePage unmarshal (spec_service run busy) targetURL optionsJson s)) =
         progress s"
  by (simp add: CapturePage_cases spec_service_def capture_response_error)

theorem busy_session_rejected_witness:
  "capture_in_progress (Phase (progress downloading_session))
   \<and> CapturePage example_unmarshal (spec_service example_run busy_text) some_url
       payload_all_keys downloading_session =
       (\<lparr>Code = 500, Msg = msg_capture_failed @ busy_text, Data = NoData\<rparr>, downloading_session)"
proof -
  have active: "capture_in_progress (Phase (progress downloading_session))"
    by (simp add: capture_in_progress_def downloading_session_def)
  have message: "error_message busy_text = msg_capture_failed @ busy_text"
    by (simp add: error_message_def busy_text_def text_http_error_def
        text_unsupported_type_def text_request_failed_def)
  have same: "downloading_session\<lparr>observer := Some progress_callback\<rparr> = downloading_session"
    by (simp add: downloading_session_def)
  show ?thesis
    using busy_session_rejected [OF active, of some_url example_unmarshal example_run busy_text
        payload_all_keys] some_url_not_blank active
    by (simp add: message same)
qed

text \<open>
  C6 as stated fails for an empty URL: while a download is in progress the call
  is answered with code 400 and the message of the URL check, not with the busy error.
\<close>

theorem busy_session_counterexample:
  "capture_in_progress (Phase (progress downloading_session))
   \<and> CapturePage example_unmarshal (spec_service example_run busy_text) [] payload_all_keys
       downloading_session =
       (\<lparr>Code = 400, Msg = msg_url_empty, Data = NoData\<rparr>, downloading_session)
   \<and> \<lparr>Code = 400, Msg = msg_url_empty, Data = NoData\<rparr> \<noteq>
       \<lparr>Code = 500, Msg = error_message busy_text, Data = NoData\<rparr>"
  by (simp add: CapturePage_cases capture_in_progress_def downloading_session_def)

subsection \<open>GetCaptureProgress\<close>

text \<open>
  C7. \<open>GetCaptureProgress\<close> has no error branch: in every state of the capture service
  it answers with code 200, the message \<open>success\<close> and, as data, the progress that
  \<open>GetCurrentProgress\<close> returns in that state.
\<close>

theorem progress_always_succeeds:
  "GetCaptureProgress service s =
     (\<lparr>Code = 200, Msg = ''success'', Data = ProgressData (fst (GetCurrentProgress service s))\<rparr>,
      snd (GetCurrentProgress service s))"
  by (simp add: GetCaptureProgress_def split_def Let_def)

theorem progress_always_succeeds_witness:
  "GetCaptureProgress recording_service [] =
     (\<lparr>Code = 200, Msg = ''success'', Data = ProgressData idle_progress\<rparr>, [])"
  using progress_always_succeeds [of recording_service "[]"]
  by (simp add: recording_service_def)

text \<open>
  C8. When the read of the capture service leaves its state as it was,
  \<open>GetCaptureProgress\<close> leaves it as it was too, and a second call returns what the
  first one returned.
\<close>

theorem progress_read_twice:
  "snd (GetCurrentProgress service s) = s \<Longrightarrow>
     snd (GetCaptureProgress service s) = s
     \<and> GetCaptureProgress service (snd (GetCaptureProgress service s)) =
         GetCaptureProgress service s"
  by (simp add: GetCaptureProgress_def split_def Let_def)

theorem progress_read_twice_witness:
  "snd (GetCurrentProgress recording_service [(some_url, default_options)]) =
     [(some_url, default_options)]
   \<and> GetCaptureProgress recording_service
       (snd (GetCaptureProgress recording_service [(some_url, default_options)])) =
       (\<lparr>Code = 200, Msg = ''success'', Data = ProgressData idle_progress\<rparr>,
        [(some_url, default_options)])
   \<and> GetCaptureProgress recording_service [(some_url, default_options)] =
       (\<lparr>Code = 200, Msg = ''success'', Data = ProgressData idle_progress\<rparr>,
        [(some_url, default_options)])"
proof -
  have pure: "snd (GetCurrentProgress recording_service [(some_url, default_options)]) =
      [(some_url, default_options)]"
    by (simp add: recording_service_def)
  have first: "GetCaptureProgress recording_service [(some_url, default_options)] =
      (\<lparr>Code = 200, Msg = ''success'', Data = ProgressData idle_progress\<rparr>,
       [(some_url, default_options)])"
    by (simp add: GetCaptureProgress_def recording_service_def)
  show ?thesis
    using progress_read_twice [OF pure] pure first
    by simp
qed

subsection \<open>Error responses\<close>

text \<open>
  C9, as the code has it. A response that is not a success carries no data, a numeric
  code and a message, and nothing else. The code is 400 for a blank URL and 500 for
  every failure of the capture service. For an error of the service the message is the
  text of the error behind one of four phrases, chosen by the words found in that
  text; when the service returns neither a result nor an error the message is fixed.
\<close>

theorem failure_response:
  assumes failed: "Code (fst (CapturePage unmarshal service targetURL optionsJson s)) \<noteq> 200"
  shows "Data (fst (CapturePage unmarshal service targetURL optionsJson s)) = NoData
     \<and> (if targetURL = [] \<or> TrimSpace targetURL = [] then
          fst (CapturePage unmarshal service targetURL optionsJson s) =
            \<lparr>Code = 400, Msg = msg_url_empty, Data = NoData\<rparr>
        else
          Code (fst (CapturePage unmarshal service targetURL optionsJson s)) = 500
          \<and> (case snd (fst (service_call unmarshal service targetURL optionsJson s)) of
               None \<Rightarrow>
                 Msg (fst (CapturePage unmarshal service targetURL optionsJson s)) =
                   msg_empty_result
             | Some err \<Rightarrow>
                 Msg (fst (CapturePage unmarshal service targetURL optionsJson s)) =
                   error_message err
                 \<and> error_message err \<in>
                     {msg_cannot_access @ err, msg_type_unsupported @ err,
                      msg_network_failed @ err, msg_capture_failed @ err}))"
proof (cases "targetURL = [] \<or> TrimSpace targetURL = []")
  case True
  then show ?thesis
    by (simp add: CapturePage_cases)
next
  case False
  obtain r s' where call: "service_call unmarshal service targetURL optionsJson s = (r, s')"
    by (cases "service_call unmarshal service targetURL optionsJson s")
  from False call have resp:
    "fst (CapturePage unmarshal service targetURL optionsJson s) = capture_response r"
    by (simp add: CapturePage_cases)
  with failed have no_success: "\<not> (snd r = None \<and> fst r \<noteq> None)"
    by (simp add: capture_response_Code split: if_splits)
  show ?thesis
  proof (cases "snd r")
    case None
    with no_success have "r = (None, None)"
      by (cases r) simp
    with False call resp None show ?thesis
      by (simp add: capture_response_nil)
  next
    case (Some err)
    with False call resp error_message_cases [of err] show ?thesis
      by (simp add: capture_response_error)
  qed
qed

theorem failure_response_witness:
  "fst (CapturePage example_unmarshal (failing_service (text_unsupported_type @ '': video/mp4''))
        some_url payload_all_keys ()) =
     \<lparr>Code = 500, Msg = msg_type_unsupported @ text_unsupported_type @ '': video/mp4'',
      Data = NoData\<rparr>"
proof -
  have message: "error_message (text_unsupported_type @ '': video/mp4'') =
      msg_type_unsupported @ text_unsupported_type @ '': video/mp4''"
    by (simp add: error_message_def text_http_error_def text_unsupported_type_def)
  have code: "Code (fst (CapturePage example_unmarshal
      (failing_service (text_unsupported_type @ '': video/mp4'')) some_url payload_all_keys ()))
      \<noteq> 200"
    using some_url_not_blank
    by (simp add: CapturePage_cases failing_service_def capture_response_error)
  show ?thesis
    using failure_response [OF code] some_url_not_blank
    by (cases "fst (CapturePage example_unmarshal
        (failing_service (text_unsupported_type @ '': video/mp4'')) some_url payload_all_keys ())")
      (simp add: failing_service_def message)
qed

text \<open>
  C9 as stated fails: an error of the HTTP kind and an error of the network kind
  give responses that agree in everything but the message, and two errors outside the
  three kinds that the code looks for (a failed archive, a busy service) also agree in
  the phrase in front of the message.
\<close>

theorem failure_kind_counterexample:
  "fst (CapturePage example_unmarshal (failing_service (text_http_error @ '': 404''))
        some_url [] ()) =
     \<lparr>Code = 500, Msg = msg_cannot_access @ text_http_error @ '': 404'', Data = NoData\<rparr>
   \<and> fst (CapturePage example_unmarshal (failing_service (text_request_failed @ '': timeout''))
        some_url [] ()) =
     \<lparr>Code = 500, Msg = msg_network_failed @ text_request_failed @ '': timeout'', Data = NoData\<rparr>
   \<and> fst (CapturePage example_unmarshal (failing_service ''zip: write failed'') some_url [] ()) =
     \<lparr>Code = 500, Msg = msg_capture_failed @ ''zip: write failed'', Data = NoData\<rparr>
   \<and> fst (CapturePage example_unmarshal (failing_service busy_text) some_url [] ()) =
     \<lparr>Code = 500, Msg = msg_capture_failed @ busy_text, Data = NoData\<rparr>"
proof -
  have "error_message (text_http_error @ '': 404'') = msg_cannot_access @ text_http_error @ '': 404''"
    by (simp add: error_message_def text_http_error_def)
  moreover have "error_message (text_request_failed @ '': timeout'') =
      msg_network_failed @ text_request_failed @ '': timeout''"
    by (simp add: error_message_def text_http_error_def text_unsupported_type_def
        text_request_failed_def)
  moreover have "error_message ''zip: write failed'' = msg_capture_failed @ ''zip: write failed''"
    by (simp add: error_message_def text_http_error_def text_unsupported_type_def
        text_request_failed_def)
  moreover have "error_message busy_text = msg_capture_failed @ busy_text"
    by (simp add: error_message_def busy_text_def text_http_error_def
        text_unsupported_type_def text_request_failed_def)
  ultimately show ?thesis
    using some_url_not_blank
    by (simp add: CapturePage_cases failing_service_def capture_response_error)
qed

subsection \<open>Response codes\<close>

text \<open>
  C10. The response of \<open>CapturePage\<close> has code 200, 400 or 500. The code is 200 exactly
  when the URL passes the check and the capture service returns a result and no error;
  a service that returns neither a result nor an error gets code 500.
\<close>

theorem response_code:
  "Code (fst (CapturePage unmarshal service targetURL optionsJson s)) \<in> {200, 400, 500}
   \<and> (Code (fst (CapturePage unmarshal service targetURL optionsJson s)) = 200 \<longleftrightarrow>
        targetURL \<noteq> [] \<and> TrimSpace targetURL \<noteq> []
        \<and> (\<exists>result. fst (service_call unmarshal service targetURL optionsJson s) =
              (Some result, None)))
   \<and> (targetURL \<noteq> [] \<and> TrimSpace targetURL \<noteq> []
        \<and> fst (service_call unmarshal service targetURL optionsJson s) = (None, None) \<longrightarrow>
        fst (CapturePage unmarshal service targetURL optionsJson s) =
          \<lparr>Code = 500, Msg = msg_empty_result, Data = NoData\<rparr>)"
  by (cases "fst (service_call unmarshal service targetURL optionsJson s)")
    (auto simp: CapturePage_cases capture_response_def split: option.splits)

theorem response_code_witness:
  "fst (CapturePage example_unmarshal silent_service some_url ''{}'' ()) =
     \<lparr>Code = 500, Msg = msg_empty_result, Data = NoData\<rparr>
   \<and> Code (fst (CapturePage example_unmarshal recording_service some_url ''{}'' [])) = 200"
proof -
  have nil: "fst (service_call example_unmarshal silent_service some_url ''{}'' ()) = (None, None)"
    by (simp add: silent_service_def)
  have ok: "fst (service_call example_unmarshal recording_service some_url ''{}'' []) =
      (Some example_result, None)"
    by (simp add: recording_service_def)
  show ?thesis
    using response_code [of example_unmarshal silent_service some_url "''{}''" "()"]
      response_code [of example_unmarshal recording_service some_url "''{}''" "[]"]
      some_url_not_blank nil ok
    by simp
qed

end
